theory Spec2Isabelle
  imports Complex_Main "HOL-Library.Monad_Syntax"
begin

section \<open>Python values shared by all modules\<close>

text \<open>
  A Python \<open>str\<close> is a sequence of Unicode code points; it is modelled as the list of
  their numbers, so that text outside ASCII (the transcripts are mostly Chinese) is
  covered. \<open>u\<close> turns an ASCII literal of the source into such a list.
\<close>

type_synonym pystr = "nat list"

definition u :: "string \<Rightarrow> pystr" where
  "u s = map of_char s"

text \<open>
  \<open>xs[i:]\<close>: a negative start counts from the end, and the start is clamped to
  the list, so \<open>xs[-0:]\<close> is the whole list.
\<close>

definition py_slice_from :: "int \<Rightarrow> 'a list \<Rightarrow> 'a list" where
  "py_slice_from i xs =
     (let n = int (length xs);
          j = (if i < 0 then max (i + n) 0 else min i n)
      in drop (nat j) xs)"

text \<open>
  What a call does besides changing the state: it returns (\<open>None\<close>) or raises an
  exception (\<open>Some\<close>). The exceptions are those of class \<open>Exception\<close>, the class
  named by the \<open>except\<close> clauses of the source: the ones the source raises itself or
  provokes (\<open>RuntimeError\<close> with its message, \<open>AttributeError\<close>, \<open>TypeError\<close>) and
  any other, as \<open>Exception\<close> with a message.
\<close>

datatype exn = Exception pystr | RuntimeError pystr | AttributeError | TypeError

text \<open>
  The Python values that \<open>json.loads\<close> returns and that the program puts into event
  data. A \<open>float\<close> is a double, kept as the rational number it is equal to, or one of
  the three special values. A \<open>dict\<close> is the list of its items in insertion order, with
  distinct keys.
\<close>

datatype pyfloat = Fin rat | PosInf | NegInf | NaN

datatype pyval =
    PyNone | PyBool bool | PyInt int | PyFloat pyfloat | PyStr pystr
  | PyList "pyval list" | PyDict "(pystr \<times> pyval) list"

section \<open>events.py\<close>

datatype EventType =
    TRANSCRIPTION_STARTED | TRANSCRIPTION_PARTIAL | TRANSCRIPTION_SENTENCE_BEGIN
  | TRANSCRIPTION_SENTENCE_END | TRANSCRIPTION_COMPLETED | TRANSCRIPTION_ERROR
  | TRANSCRIPTION_TRANSLATED
  | QUESTION_DETECTED | ANSWER_GENERATED | SUGGEST_QUESTION | PERIODIC_SUMMARY
  | CREATIVE_IDEAS | CONTENT_ANALYSIS
  | CLASS_STARTED | CLASS_PAUSED | CLASS_RESUMED | CLASS_ENDED | MATERIAL_LOADED
  | SYSTEM_ERROR | SYSTEM_WARNING | SYSTEM_INFO
  | MESSAGE_RECEIVED | MESSAGE_SENT | COMMAND_RECEIVED

text \<open>
  The dataclass \<open>Event\<close>. The payload type \<open>'d\<close> is the \<open>data\<close> dictionary. The field
  \<open>timestamp\<close> (the wall clock at construction) is left out: nothing in the bus or the
  analysis engine reads it.
\<close>

record 'd Event =
  etype :: EventType
  data :: 'd
  source :: pystr

text \<open>
  What a handler raises: an exception of class \<open>Exception\<close>, or
  \<open>asyncio.CancelledError\<close>, which is a \<open>BaseException\<close> outside that class (a handler
  raises it when what it awaits is cancelled). \<open>KeyboardInterrupt\<close> and \<open>SystemExit\<close>,
  which end the event loop, are not modelled.
\<close>

datatype raised = OfException exn | CancelledError

text \<open>
  \<open>EventBus\<close>. A handler is a coroutine function; the bus stores handlers and compares
  them (\<open>h != handler\<close> in \<open>unsubscribe\<close>), so the bus holds handler identities \<open>'h\<close>,
  and what a handler does when called is given apart, by
  \<open>env :: 'h \<Rightarrow> 'd Event \<Rightarrow> 'w \<Rightarrow> 'w \<times> raised option\<close>: the handler runs on the state
  \<open>'w\<close> of the program outside the bus and returns or raises. Handlers are taken to run
  to completion one after the other, in the order in which \<open>gather\<close> starts them.
\<close>

record ('h, 'd) EventBus =
  handlers :: "EventType \<rightharpoonup> 'h list"
  global_handlers :: "'h list"
  event_history :: "'d Event list"
  max_history :: int

definition EventBus_init :: "('h, 'd) EventBus" where
  "EventBus_init =
     \<lparr>handlers = Map.empty, global_handlers = [], event_history = [], max_history = 1000\<rparr>"



definition unsubscribe :: "EventType \<Rightarrow> 'h \<Rightarrow> ('h, 'd) EventBus \<Rightarrow> ('h, 'd) EventBus" where
  "unsubscribe event_type handler b =
     (case handlers b event_type of
        None \<Rightarrow> b
      | Some hs \<Rightarrow> b\<lparr>handlers := (handlers b)(event_type \<mapsto> filter (\<lambda>h. h \<noteq> handler) hs)\<rparr>)"

text \<open>
  The state a handler call runs on: the program state and the record of the calls made
  so far (which handler, with which event). The record of calls is what
  "invoked exactly once" is stated on.
\<close>

type_synonym ('h, 'd, 'w) run = "'w \<times> ('h \<times> 'd Event) list"

text \<open>
  \<open>_safe_call\<close>: \<open>try: await handler(event)\<close>, \<open>except Exception\<close>: log. An exception of
  class \<open>Exception\<close> is caught and the call returns normally; \<open>CancelledError\<close> is not
  caught and leaves the call.
\<close>

definition safe_call ::
  "('h \<Rightarrow> 'd Event \<Rightarrow> 'w \<Rightarrow> 'w \<times> raised option) \<Rightarrow> 'h \<Rightarrow> 'd Event
     \<Rightarrow> ('h, 'd, 'w) run \<Rightarrow> ('h, 'd, 'w) run \<times> raised option" where
  "safe_call env handler event r =
     (case r of (w, calls) \<Rightarrow>
        (case env handler event w of
           (w', None) \<Rightarrow> ((w', calls @ [(handler, event)]), None)
         | (w', Some (OfException e)) \<Rightarrow> ((w', calls @ [(handler, event)]), None)
         | (w', Some CancelledError) \<Rightarrow>
             ((w', calls @ [(handler, event)]), Some CancelledError)))"

text \<open>
  \<open>asyncio.gather(*tasks)\<close>: every task runs (an exception in one does not stop the
  others); the result is the first exception raised by one of them, if any, which
  \<open>await\<close> raises in the caller.
\<close>

fun gather :: "('s \<Rightarrow> 's \<times> raised option) list \<Rightarrow> 's \<Rightarrow> 's \<times> raised option" where
  "gather [] s = (s, None)"
| "gather (t # ts) s =
     (case t s of (s1, r1) \<Rightarrow>
        (case gather ts s1 of (s2, r2) \<Rightarrow>
           (s2, (case r1 of Some e \<Rightarrow> Some e | None \<Rightarrow> r2))))"

text \<open>
  \<open>self._handlers.get(event_type, [])\<close>, and the list \<open>publish\<close> calls for an event:
  the handlers of its type, then the global ones.
\<close>

definition subscribers :: "('h, 'd) EventBus \<Rightarrow> EventType \<Rightarrow> 'h list" where
  "subscribers b event_type = (case handlers b event_type of None \<Rightarrow> [] | Some hs \<Rightarrow> hs)"

definition handlers_for :: "('h, 'd) EventBus \<Rightarrow> 'd Event \<Rightarrow> 'h list" where
  "handlers_for b event = subscribers b (etype event) @ global_handlers b"

definition publish ::
  "('h \<Rightarrow> 'd Event \<Rightarrow> 'w \<Rightarrow> 'w \<times> raised option) \<Rightarrow> 'd Event
     \<Rightarrow> ('h, 'd) EventBus \<Rightarrow> ('h, 'd, 'w) run
     \<Rightarrow> ('h, 'd) EventBus \<times> ('h, 'd, 'w) run \<times> raised option" where
  "publish env event b r =
     (let h1 = event_history b @ [event];
          h2 = (if int (length h1) > max_history b
                then py_slice_from (- max_history b) h1 else h1);
          b' = b\<lparr>event_history := h2\<rparr>;
          hs = handlers_for b' event
      in if hs = [] then (b', r, None)
         else (case gather (map (\<lambda>h. safe_call env h event) hs) r of
                 (r', res) \<Rightarrow> (b', r', res)))"

text \<open>
  \<open>get_history\<close>. Every member of \<open>EventType\<close> is a non-empty string and so true in
  \<open>if event_type\<close>: the filter is applied exactly when a type is given.
\<close>

definition get_history ::
  "('h, 'd) EventBus \<Rightarrow> EventType option \<Rightarrow> int \<Rightarrow> 'd Event list" where
  "get_history b event_type limit =
     (let history = (case event_type of
                       Some t \<Rightarrow> filter (\<lambda>e. etype e = t) (event_history b)
                     | None \<Rightarrow> event_history b)
      in py_slice_from (- limit) history)"

text \<open>A sequence of publishes, one after the other.\<close>

fun publish_seq ::
  "('h \<Rightarrow> 'd Event \<Rightarrow> 'w \<Rightarrow> 'w \<times> raised option) \<Rightarrow> 'd Event list
     \<Rightarrow> ('h, 'd) EventBus \<Rightarrow> ('h, 'd, 'w) run \<Rightarrow> ('h, 'd) EventBus \<times> ('h, 'd, 'w) run" where
  "publish_seq env [] b r = (b, r)"
| "publish_seq env (e # es) b r =
     (case publish env e b r of (b', r', res) \<Rightarrow> publish_seq env es b' r')"

section \<open>audio.py\<close>

text \<open>
  \<open>asyncio.Queue\<close>, as far as the capture uses it: \<open>maxsize\<close> and the deque of items,
  oldest first. \<open>put_nowait\<close> raises \<open>QueueFull\<close> and \<open>get_nowait\<close> raises \<open>QueueEmpty\<close>.
\<close>

datatype queue_error = QueueFull | QueueEmpty

record 'a Queue =
  maxsize :: int
  items :: "'a list"

definition Queue_init :: "int \<Rightarrow> 'a Queue" where
  "Queue_init m = \<lparr>maxsize = m, items = []\<rparr>"

definition qsize :: "'a Queue \<Rightarrow> int" where
  "qsize q = int (length (items q))"

definition full :: "'a Queue \<Rightarrow> bool" where
  "full q = (if maxsize q \<le> 0 then False else qsize q \<ge> maxsize q)"

definition put_nowait :: "'a Queue \<Rightarrow> 'a \<Rightarrow> queue_error + 'a Queue" where
  "put_nowait q item = (if full q then Inl QueueFull else Inr (q\<lparr>items := items q @ [item]\<rparr>))"

definition get_nowait :: "'a Queue \<Rightarrow> queue_error + 'a \<times> 'a Queue" where
  "get_nowait q =
     (case items q of [] \<Rightarrow> Inl QueueEmpty | item # rest \<Rightarrow> Inr (item, q\<lparr>items := rest\<rparr>))"

text \<open>\<open>AudioCapture\<close>: the settings, the running flag and the queue of captured frames.\<close>

type_synonym bytes = "nat list"

record AudioCapture =
  device_index :: "int option"
  sample_rate :: int
  channels :: int
  chunk_size :: int
  format_bits :: int
  running :: bool
  audio_queue :: "bytes Queue"

definition AudioCapture_init :: "int option \<Rightarrow> int \<Rightarrow> int \<Rightarrow> int \<Rightarrow> int \<Rightarrow> AudioCapture" where
  "AudioCapture_init dev rate chans chunk bits =
     \<lparr>device_index = dev, sample_rate = rate, channels = chans, chunk_size = chunk,
      format_bits = bits, running = False, audio_queue = Queue_init 500\<rparr>"

text \<open>
  \<open>_enqueue\<close>: put the frame; on \<open>QueueFull\<close> take the oldest frame out (\<open>QueueEmpty\<close> is
  passed over) and put the frame again (\<open>QueueFull\<close> is passed over).
\<close>

definition enqueue :: "bytes \<Rightarrow> AudioCapture \<Rightarrow> AudioCapture" where
  "enqueue d a =
     (case put_nowait (audio_queue a) d of
        Inr q \<Rightarrow> a\<lparr>audio_queue := q\<rparr>
      | Inl err \<Rightarrow>
          (let q1 = (case get_nowait (audio_queue a) of
                       Inr (oldest, q') \<Rightarrow> q'
                     | Inl err' \<Rightarrow> audio_queue a)
           in (case put_nowait q1 d of
                 Inr q2 \<Rightarrow> a\<lparr>audio_queue := q2\<rparr>
               | Inl err'' \<Rightarrow> a\<lparr>audio_queue := q1\<rparr>)))"

section \<open>speech.py\<close>

text \<open>
  \<open>TingwuClient\<close>: the task id and the stream URL stored by the task creation, the
  WebSocket (\<open>None\<close>, or the connection to a URL), the running flag and whether a receive
  task has been created. The configuration is only copied into the messages sent and is
  left out.
\<close>

record TingwuClient =
  task_id :: "pystr option"
  meeting_join_url :: "pystr option"
  ws :: "pystr option"
  stream_running :: bool
  receive_task :: bool

definition TingwuClient_init :: TingwuClient where
  "TingwuClient_init =
     \<lparr>task_id = None, meeting_join_url = None, ws = None, stream_running = False,
      receive_task = False\<rparr>"

text \<open>
  What the client does to the outside: the calls on the WebSocket library, the sleep,
  the receive task and the events it publishes, in the order made. A call that fails is
  listed too; whether it fails is an argument of the operation (\<open>None\<close>: it succeeds).
\<close>

datatype command = StartTranscription | StopTranscription

datatype stream_io =
    Connect pystr | SendText command | SendBytes bytes | CloseWs
  | Sleep nat | CreateReceiveTask | CancelReceiveTask
  | Publish "(pystr \<times> pyval) list Event"

text \<open>The message of the \<open>RuntimeError\<close> of \<open>start_streaming\<close>: "create the realtime
  recording task first", ten Chinese characters.\<close>

definition msg_create_task_first :: pystr where
  "msg_create_task_first =
     [35831, 20808, 21019, 24314, 23454, 26102, 35760, 24405, 20219, 21153]"

text \<open>\<open>not self.meeting_join_url\<close>: the URL is \<open>None\<close> or the empty string.\<close>

definition no_url :: "pystr option \<Rightarrow> bool" where
  "no_url url = (case url of None \<Rightarrow> True | Some s \<Rightarrow> s = [])"

definition optional_str :: "pystr option \<Rightarrow> pyval" where
  "optional_str s = (case s of None \<Rightarrow> PyNone | Some t \<Rightarrow> PyStr t)"

definition start_streaming ::
  "exn option \<Rightarrow> exn option \<Rightarrow> TingwuClient \<Rightarrow> TingwuClient \<times> stream_io list \<times> exn option" where
  "start_streaming connect_fails send_fails c =
     (if no_url (meeting_join_url c) then (c, [], Some (RuntimeError msg_create_task_first))
      else
        (let url = the (meeting_join_url c) in
         case connect_fails of
           Some e \<Rightarrow> (c, [Connect url], Some e)
         | None \<Rightarrow>
             (let c1 = c\<lparr>ws := Some url, stream_running := True\<rparr> in
              case send_fails of
                Some e \<Rightarrow> (c1, [Connect url, SendText StartTranscription], Some e)
              | None \<Rightarrow>
                  (c1\<lparr>receive_task := True\<rparr>,
                   [Connect url, SendText StartTranscription, CreateReceiveTask,
                    Publish \<lparr>etype = TRANSCRIPTION_STARTED,
                             data = [(u ''task_id'', optional_str (task_id c))],
                             source = u ''tingwu''\<rparr>],
                   None))))"

text \<open>
  \<open>send_audio\<close>: sends only \<open>if self._ws and self._running\<close>; a failure of the send is
  logged and not raised.
\<close>

definition send_audio ::
  "exn option \<Rightarrow> bytes \<Rightarrow> TingwuClient \<Rightarrow> TingwuClient \<times> stream_io list \<times> exn option" where
  "send_audio send_fails audio_data c =
     (if ws c \<noteq> None \<and> stream_running c then
        (case send_fails of
           None \<Rightarrow> (c, [SendBytes audio_data], None)
         | Some e \<Rightarrow> (c, [SendBytes audio_data], None))
      else (c, [], None))"

text \<open>
  \<open>stop_streaming\<close>: everything is under \<open>if self._ws and self._running\<close>. A failure to
  send the stop command skips the sleep and is logged; the receive task is cancelled
  and awaited (it absorbs its own exceptions, so the await raises nothing but the
  cancellation, which is passed over); a failure of \<open>close\<close> is passed over.
\<close>

definition stop_streaming ::
  "exn option \<Rightarrow> exn option \<Rightarrow> TingwuClient \<Rightarrow> TingwuClient \<times> stream_io list \<times> exn option" where
  "stop_streaming send_fails close_fails c =
     (if ws c \<noteq> None \<and> stream_running c then
        (let io1 = (case send_fails of
                      None \<Rightarrow> [SendText StopTranscription, Sleep 2]
                    | Some e \<Rightarrow> [SendText StopTranscription]);
             c1 = c\<lparr>stream_running := False\<rparr>;
             io2 = (if receive_task c1 then [CancelReceiveTask] else []);
             io3 = (case close_fails of None \<Rightarrow> [CloseWs] | Some e \<Rightarrow> [CloseWs])
         in (c1\<lparr>ws := None\<rparr>, io1 @ io2 @ io3, None))
      else (c, [], None))"

section \<open>Python strings and the JSON decoder\<close>

text \<open>
  The characters \<open>str.strip()\<close> removes: the code points with \<open>str.isspace()\<close>.
\<close>

definition isspace :: "nat \<Rightarrow> bool" where
  "isspace c =
     ((9 \<le> c \<and> c \<le> 13) \<or> (28 \<le> c \<and> c \<le> 32) \<or> c = 133 \<or> c = 160 \<or> c = 5760
      \<or> (8192 \<le> c \<and> c \<le> 8202) \<or> c = 8232 \<or> c = 8233 \<or> c = 8239 \<or> c = 8287
      \<or> c = 12288)"

definition strip :: "pystr \<Rightarrow> pystr" where
  "strip s = rev (dropWhile isspace (rev (dropWhile isspace s)))"

definition startswith :: "pystr \<Rightarrow> pystr \<Rightarrow> bool" where
  "startswith s p = (take (length p) s = p)"

definition endswith :: "pystr \<Rightarrow> pystr \<Rightarrow> bool" where
  "endswith s p = (length p \<le> length s \<and> drop (length s - length p) s = p)"

text \<open>\<open>s.find(c)\<close> and \<open>s.rfind(c)\<close> for a single character: the index, or -1.\<close>

fun str_find :: "pystr \<Rightarrow> nat \<Rightarrow> int" where
  "str_find [] c = - 1"
| "str_find (x # xs) c =
     (if x = c then 0 else (let r = str_find xs c in if r < 0 then - 1 else r + 1))"

definition str_rfind :: "pystr \<Rightarrow> nat \<Rightarrow> int" where
  "str_rfind s c = (let r = str_find (rev s) c in if r < 0 then - 1 else int (length s) - 1 - r)"

text \<open>\<open>xs[:j]\<close> and \<open>xs[i:j]\<close>, with the same clamping as \<open>xs[i:]\<close>.\<close>

definition py_slice_to :: "int \<Rightarrow> 'a list \<Rightarrow> 'a list" where
  "py_slice_to j xs =
     (let n = int (length xs);
          k = (if j < 0 then max (j + n) 0 else min j n)
      in take (nat k) xs)"

definition py_slice :: "int \<Rightarrow> int \<Rightarrow> 'a list \<Rightarrow> 'a list" where
  "py_slice i j xs =
     (let n = int (length xs);
          a = (if i < 0 then max (i + n) 0 else min i n);
          b = (if j < 0 then max (j + n) 0 else min j n)
      in take (nat (b - a)) (drop (nat a) xs))"

text \<open>\<open>"\n".join(xs)\<close>.\<close>

fun join_lines :: "pystr list \<Rightarrow> pystr" where
  "join_lines [] = []"
| "join_lines [x] = x"
| "join_lines (x # y # ys) = x @ [10] @ join_lines (y # ys)"

text \<open>
  Dictionaries: \<open>d[k] = v\<close> keeps the place of a key that is already there, and
  \<open>d.get(k, default)\<close>.
\<close>

fun dict_set :: "(pystr \<times> pyval) list \<Rightarrow> pystr \<Rightarrow> pyval \<Rightarrow> (pystr \<times> pyval) list" where
  "dict_set [] k v = [(k, v)]"
| "dict_set ((k', v') # kvs) k v =
     (if k' = k then (k', v) # kvs else (k', v') # dict_set kvs k v)"

definition dict_get :: "(pystr \<times> pyval) list \<Rightarrow> pystr \<Rightarrow> pyval \<Rightarrow> pyval" where
  "dict_get d k dflt = (case map_of d k of Some v \<Rightarrow> v | None \<Rightarrow> dflt)"

text \<open>
  \<open>json.loads\<close> is the standard library's, not this program's. The functions of the
  program take the decoder as an argument \<open>loads\<close>, which returns a value or raises
  one of the three exceptions \<open>json.loads\<close> raises on a string: \<open>JSONDecodeError\<close> for
  a text that is not JSON, \<open>ValueError\<close> for an integer literal of more than 4300
  digits, \<open>RecursionError\<close> for arrays and objects nested deeper than the interpreter
  allows. What is proved of the functions holds for every decoder. \<open>json_loads\<close> below
  is a model of the library's decoder for evaluating them on given texts. It follows
  the library's scanner: white space is space, tab, line feed and carriage return; a
  string may not hold a control character and has the escapes of JSON, a surrogate pair
  of \<open>\u\<close> escapes giving one character; a number without fraction and exponent is an
  \<open>int\<close>, any other a \<open>float\<close>, rounded to the nearest double; \<open>NaN\<close>, \<open>Infinity\<close> and
  \<open>-Infinity\<close> are accepted; a later value for a key replaces the earlier; text after
  the value is an error, and so is a leading byte order mark.
\<close>

datatype json_error = JSONDecodeError | ValueError | RecursionError

definition json_ws :: "nat \<Rightarrow> bool" where
  "json_ws c = (c = 32 \<or> c = 9 \<or> c = 10 \<or> c = 13)"

definition skip_ws :: "pystr \<Rightarrow> pystr" where
  "skip_ws s = dropWhile json_ws s"

definition is_digit :: "nat \<Rightarrow> bool" where
  "is_digit c = (48 \<le> c \<and> c \<le> 57)"

definition hex_val :: "nat \<Rightarrow> nat option" where
  "hex_val c =
     (if 48 \<le> c \<and> c \<le> 57 then Some (c - 48)
      else if 65 \<le> c \<and> c \<le> 70 then Some (c - 55)
      else if 97 \<le> c \<and> c \<le> 102 then Some (c - 87)
      else None)"

text \<open>The four hexadecimal digits at the head of the text, as a number.\<close>

definition hex4 :: "pystr \<Rightarrow> nat option" where
  "hex4 s =
     (case s of
        a # b # c # d # rest \<Rightarrow>
          (case (hex_val a, hex_val b, hex_val c, hex_val d) of
             (Some x, Some y, Some z, Some w) \<Rightarrow> Some (((x * 16 + y) * 16 + z) * 16 + w)
           | _ \<Rightarrow> None)
      | _ \<Rightarrow> None)"

text \<open>The low surrogate written as an escape at the head of the text, if there is one.\<close>

definition low_surrogate :: "pystr \<Rightarrow> nat option" where
  "low_surrogate s =
     (if take 2 s = [92, 117] then
        (case hex4 (drop 2 s) of
           Some lo \<Rightarrow> (if 56320 \<le> lo \<and> lo \<le> 57343 then Some lo else None)
         | None \<Rightarrow> None)
      else None)"

definition backslash :: "nat \<Rightarrow> nat option" where
  "backslash e =
     (if e = 34 then Some 34 else if e = 92 then Some 92 else if e = 47 then Some 47
      else if e = 98 then Some 8 else if e = 102 then Some 12 else if e = 110 then Some 10
      else if e = 114 then Some 13 else if e = 116 then Some 9 else None)"

text \<open>
  The rest of a string after its opening quote: the characters read up to the closing
  quote, and the text after it.
\<close>

function scanstring :: "pystr \<Rightarrow> pystr \<Rightarrow> (pystr \<times> pystr) option" where
  "scanstring acc [] = None"
| "scanstring acc (c # cs) =
     (if c = 34 then Some (acc, cs)
      else if c = 92 then
        (case cs of
           [] \<Rightarrow> None
         | e # cs' \<Rightarrow>
             (if e = 117 then
                (case hex4 cs' of
                   None \<Rightarrow> None
                 | Some uni \<Rightarrow>
                     (if 55296 \<le> uni \<and> uni \<le> 56319 then
                        (case low_surrogate (drop 4 cs') of
                           Some lo \<Rightarrow>
                             scanstring
                               (acc @ [65536 + (uni - 55296) * 1024 + (lo - 56320)])
                               (drop 10 cs')
                         | None \<Rightarrow> scanstring (acc @ [uni]) (drop 4 cs'))
                      else scanstring (acc @ [uni]) (drop 4 cs')))
              else
                (case backslash e of
                   None \<Rightarrow> None
                 | Some ch \<Rightarrow> scanstring (acc @ [ch]) cs')))
      else if c < 32 then None
      else scanstring (acc @ [c]) cs)"
  by pat_completeness auto
termination
  by (relation "measure (\<lambda>(acc, s). length s)") auto

text \<open>The digits at the head of the text as a number, most significant first.\<close>

definition digits_val :: "pystr \<Rightarrow> nat" where
  "digits_val ds = foldl (\<lambda>n d. 10 * n + (d - 48)) 0 ds"

text \<open>
  \<open>float\<close> of a decimal literal: the double nearest to the fraction \<open>num / den\<close>, ties
  going to the even significand; the value is kept as the rational number the double
  is. \<open>e\<close> is the binary exponent of the fraction, a double has 53 significant bits
  down to the exponent -1022 and a fixed step of \<open>2 ^ -1074\<close> below, and a result of
  \<open>2 ^ 1024\<close> or more is infinity. \<open>bit_length\<close> is that of Python's \<open>int\<close>.
\<close>

function bit_length :: "nat \<Rightarrow> nat" where
  "bit_length n = (if n = 0 then 0 else Suc (bit_length (n div 2)))"
  by pat_completeness auto
termination
  by (relation "measure (\<lambda>n. n)") auto

declare bit_length.simps [simp del]

definition round_double :: "nat \<Rightarrow> nat \<Rightarrow> pyfloat" where
  "round_double num den =
     (if num = 0 then Fin 0
      else
        (let e = (if den \<le> num then int (bit_length (num div den)) - 1
                  else - int (bit_length ((den + num - 1) div num - 1)));
             s = 52 - max e (- 1022);
             p = (if 0 \<le> s then num * 2 ^ nat s else num);
             q = (if 0 \<le> s then den else den * 2 ^ nat (- s));
             f = p div q;
             r = p mod q;
             n = (if 2 * r < q then f else if q < 2 * r then f + 1
                  else if even f then f else f + 1);
             v = (if 0 \<le> s then of_nat n / 2 ^ nat s else of_nat n * 2 ^ nat (- s) :: rat)
         in if 2 ^ 1024 \<le> v then PosInf else Fin v))"

fun neg_float :: "pyfloat \<Rightarrow> pyfloat" where
  "neg_float (Fin q) = Fin (- q)"
| "neg_float PosInf = NegInf"
| "neg_float NegInf = PosInf"
| "neg_float NaN = NaN"

text \<open>\<open>sys.get_int_max_str_digits()\<close>: \<open>int\<close> refuses a longer digit string.\<close>

definition int_max_str_digits :: nat where
  "int_max_str_digits = 4300"

text \<open>
  A number at the head of the text: an optional minus, \<open>0\<close> or a digit string without
  leading zero, an optional fraction (a point and at least one digit) and an optional
  exponent (\<open>e\<close> or \<open>E\<close>, an optional sign and at least one digit). \<open>None\<close>: there is no
  number here. Without fraction and exponent the digits go to \<open>int\<close>, which raises
  \<open>ValueError\<close> for more than 4300 of them; the others go to \<open>float\<close>.
\<close>

definition parse_number :: "pystr \<Rightarrow> (json_error + pyval \<times> pystr) option" where
  "parse_number s =
     (let neg = (take 1 s = [45]);
          s1 = (if neg then drop 1 s else s)
      in case s1 of
           [] \<Rightarrow> None
         | d # r \<Rightarrow>
             (if \<not> is_digit d then None
              else
                (let ipart = (if d = 48 then [d] else d # takeWhile is_digit r);
                     s2 = drop (length ipart) s1;
                     fpart = (if take 1 s2 = [46] then takeWhile is_digit (drop 1 s2) else []);
                     s3 = (if fpart = [] then s2 else drop (1 + length fpart) s2);
                     has_e = (take 1 s3 = [101] \<or> take 1 s3 = [69]);
                     e1 = drop 1 s3;
                     eneg = (take 1 e1 = [45]);
                     e2 = (if take 1 e1 = [45] \<or> take 1 e1 = [43] then drop 1 e1 else e1);
                     epart = (if has_e then takeWhile is_digit e2 else []);
                     s4 = (if epart = [] then s3 else drop (length epart) e2)
                 in if fpart = [] \<and> epart = [] then
                      (if int_max_str_digits < length ipart then Some (Inl ValueError)
                       else Some (Inr (PyInt ((if neg then - 1 else 1) * int (digits_val ipart)),
                                       s4)))
                    else
                      (let mant = digits_val (ipart @ fpart);
                           ex = (if eneg then - int (digits_val epart)
                                 else int (digits_val epart)) - int (length fpart);
                           mag = (if 0 \<le> ex then round_double (mant * 10 ^ nat ex) 1
                                  else round_double mant (10 ^ nat (- ex)))
                       in Some (Inr (PyFloat (if neg then neg_float mag else mag), s4))))))"

text \<open>
  The scanner. \<open>scan_once depth s\<close> reads one value at the head of \<open>s\<close>; \<open>depth\<close> is the
  number of nested arrays and objects the interpreter still allows, and an array or
  object beyond it raises \<open>RecursionError\<close>. \<open>parse_members\<close> and \<open>parse_elems\<close> are the
  loops over the members of an object (from after the opening quote of a key) and the
  elements of an array; their second argument bounds the number of turns and is set to
  the length of the text still to read, which the number of members cannot exceed.
\<close>

fun scan_once :: "nat \<Rightarrow> pystr \<Rightarrow> json_error + pyval \<times> pystr"
  and parse_members ::
    "nat \<Rightarrow> nat \<Rightarrow> pystr \<Rightarrow> (pystr \<times> pyval) list \<Rightarrow> json_error + pyval \<times> pystr"
  and parse_elems :: "nat \<Rightarrow> nat \<Rightarrow> pystr \<Rightarrow> pyval list \<Rightarrow> json_error + pyval \<times> pystr" where
  "scan_once depth s =
     (case s of
        [] \<Rightarrow> Inl JSONDecodeError
      | c # r \<Rightarrow>
          (if c = 34 then
             (case scanstring [] r of
                Some (str, r') \<Rightarrow> Inr (PyStr str, r')
              | None \<Rightarrow> Inl JSONDecodeError)
           else if c = 123 then
             (case depth of
                0 \<Rightarrow> Inl RecursionError
              | Suc depth' \<Rightarrow>
                  (case skip_ws r of
                     [] \<Rightarrow> Inl JSONDecodeError
                   | c' # r' \<Rightarrow>
                       (if c' = 125 then Inr (PyDict [], r')
                        else if c' = 34 then parse_members depth' (Suc (length r')) r' []
                        else Inl JSONDecodeError)))
           else if c = 91 then
             (case depth of
                0 \<Rightarrow> Inl RecursionError
              | Suc depth' \<Rightarrow>
                  (case skip_ws r of
                     [] \<Rightarrow> Inl JSONDecodeError
                   | c' # r' \<Rightarrow>
                       (if c' = 93 then Inr (PyList [], r')
                        else parse_elems depth' (Suc (length r')) (c' # r') [])))
           else if take 4 s = u ''null'' then Inr (PyNone, drop 4 s)
           else if take 4 s = u ''true'' then Inr (PyBool True, drop 4 s)
           else if take 5 s = u ''false'' then Inr (PyBool False, drop 5 s)
           else
             (case parse_number s of
                Some res \<Rightarrow> res
              | None \<Rightarrow>
                  (if take 3 s = u ''NaN'' then Inr (PyFloat NaN, drop 3 s)
                   else if take 8 s = u ''Infinity'' then Inr (PyFloat PosInf, drop 8 s)
                   else if take 9 s = u ''-Infinity'' then Inr (PyFloat NegInf, drop 9 s)
                   else Inl JSONDecodeError))))"
| "parse_members depth 0 s acc = Inl JSONDecodeError"
| "parse_members depth (Suc n) s acc =
     (case scanstring [] s of
        None \<Rightarrow> Inl JSONDecodeError
      | Some (key, s1) \<Rightarrow>
          (case skip_ws s1 of
             [] \<Rightarrow> Inl JSONDecodeError
           | c # s2 \<Rightarrow>
               (if c \<noteq> 58 then Inl JSONDecodeError
                else
                  (case scan_once depth (skip_ws s2) of
                     Inl e \<Rightarrow> Inl e
                   | Inr (v, s3) \<Rightarrow>
                       (case skip_ws s3 of
                          [] \<Rightarrow> Inl JSONDecodeError
                        | c' # s4 \<Rightarrow>
                            (if c' = 125 then Inr (PyDict (dict_set acc key v), s4)
                             else if c' = 44 then
                               (case skip_ws s4 of
                                  [] \<Rightarrow> Inl JSONDecodeError
                                | q # s5 \<Rightarrow>
                                    (if q = 34
                                     then parse_members depth n s5 (dict_set acc key v)
                                     else Inl JSONDecodeError))
                             else Inl JSONDecodeError))))))"
| "parse_elems depth 0 s acc = Inl JSONDecodeError"
| "parse_elems depth (Suc n) s acc =
     (case scan_once depth s of
        Inl e \<Rightarrow> Inl e
      | Inr (v, s1) \<Rightarrow>
          (case skip_ws s1 of
             [] \<Rightarrow> Inl JSONDecodeError
           | c # s2 \<Rightarrow>
               (if c = 93 then Inr (PyList (acc @ [v]), s2)
                else if c = 44 then parse_elems depth n (skip_ws s2) (acc @ [v])
                else Inl JSONDecodeError)))"

text \<open>\<open>json.loads(s)\<close> with \<open>depth\<close> levels of nesting left to the interpreter.\<close>

definition json_loads :: "nat \<Rightarrow> pystr \<Rightarrow> json_error + pyval" where
  "json_loads depth s =
     (if take 1 s = [65279] then Inl JSONDecodeError
      else
        (case scan_once depth (skip_ws s) of
           Inl e \<Rightarrow> Inl e
         | Inr (v, r) \<Rightarrow> (if skip_ws r = [] then Inr v else Inl JSONDecodeError)))"

section \<open>ai\_engine.py\<close>

text \<open>
  \<open>_parse_json_response\<close>. The first six statements remove white space and a Markdown
  code fence around the text.
\<close>

definition strip_fence :: "pystr \<Rightarrow> pystr" where
  "strip_fence text =
     (let t0 = strip text;
          t1 = (if startswith t0 (u ''```json'') then py_slice_from 7 t0
                else if startswith t0 (u ''```'') then py_slice_from 3 t0
                else t0);
          t2 = (if endswith t1 (u ''```'') then py_slice_to (- 3) t1 else t1)
      in strip t2)"

text \<open>
  The value returned is Python's: \<open>PyNone\<close> is the \<open>None\<close> the function returns when
  nothing could be decoded (and also what the text \<open>null\<close> decodes to). Both calls of
  the decoder are under \<open>except json.JSONDecodeError\<close>: that exception is caught, and
  the two others the decoder raises leave the function (\<open>Inl\<close>).
\<close>

definition parse_json_response ::
  "(pystr \<Rightarrow> json_error + pyval) \<Rightarrow> pystr \<Rightarrow> json_error + pyval" where
  "parse_json_response loads text0 =
     (let text = strip_fence text0 in
      case loads text of
        Inr v \<Rightarrow> Inr v
      | Inl JSONDecodeError \<Rightarrow>
          (let start = str_find text 123;
               endpos = str_rfind text 125 + 1
           in if start \<ge> 0 \<and> endpos > start then
                (case loads (py_slice start endpos text) of
                   Inr v \<Rightarrow> Inr v
                 | Inl JSONDecodeError \<Rightarrow> Inr PyNone
                 | Inl ValueError \<Rightarrow> Inl ValueError
                 | Inl RecursionError \<Rightarrow> Inl RecursionError)
              else Inr PyNone)
      | Inl ValueError \<Rightarrow> Inl ValueError
      | Inl RecursionError \<Rightarrow> Inl RecursionError)"

text \<open>
  The part of \<open>ClassroomConfig\<close> that the engine reads, and the engine. Of the fields of
  \<open>AIEngine\<close>, the LLM client, the lock and those that are never read again
  (\<open>_last_analysis_time\<close>, \<open>_recent_detected_questions\<close>) are left out.
  \<open>last_transcript_for_detection\<close> is the attribute that \<open>_detect_question\<close> reads
  with \<open>getattr\<close> and the default \<open>''\<close>: it starts as the empty string. The times are
  those of \<open>time.time()\<close>, in seconds, taken as real numbers. \<open>engine_running\<close> is the
  \<open>_running\<close> flag of the engine.
\<close>

record ClassroomConfig =
  output_language :: pystr
  summary_interval_minutes :: int
  enable_question_detection :: bool
  enable_suggest_questions :: bool
  enable_periodic_summary :: bool

record AIEngine =
  config :: ClassroomConfig
  transcript_buffer :: "(pystr \<times> pyval) list list"
  sentence_buffer :: "pystr list"
  last_summary_time :: real
  last_suggest_time :: real
  last_detected_question :: pyval
  last_transcript_for_detection :: pystr
  material_text :: pystr
  summary_interval :: int
  suggest_interval :: int
  engine_running :: bool
  periodic_task :: bool

text \<open>The defaults of \<open>ClassroomConfig\<close> in config.py, as far as the engine reads them.\<close>

definition ClassroomConfig_default :: ClassroomConfig where
  "ClassroomConfig_default =
     \<lparr>output_language = u ''cn'', summary_interval_minutes = 10,
      enable_question_detection = True, enable_suggest_questions = True,
      enable_periodic_summary = True\<rparr>"

definition AIEngine_init :: "ClassroomConfig \<Rightarrow> AIEngine" where
  "AIEngine_init cfg =
     \<lparr>config = cfg, transcript_buffer = [], sentence_buffer = [],
      last_summary_time = 0, last_suggest_time = 0,
      last_detected_question = PyStr [], last_transcript_for_detection = [],
      material_text = [], summary_interval = summary_interval_minutes cfg * 60,
      suggest_interval = 300, engine_running = False, periodic_task = False\<rparr>"

text \<open>
  What the engine does to the outside, in the order made: subscriptions on the bus,
  tasks created with \<open>asyncio.create_task\<close> (created, not yet run), calls of the LLM
  (\<open>Chat\<close>, with the transcript put into the prompt) and events published.
\<close>

datatype handler_name = OnSentenceEnd | OnPartialResult

datatype task = PeriodicLoop | DetectQuestion | GenerateSummary | SuggestQuestion

datatype engine_io =
    Subscribe EventType handler_name | CreateTask task | Chat pystr
  | PublishEvent "(pystr \<times> pyval) list Event"

definition start :: "AIEngine \<Rightarrow> AIEngine \<times> engine_io list" where
  "start st =
     (st\<lparr>engine_running := True, periodic_task := True\<rparr>,
      [Subscribe TRANSCRIPTION_SENTENCE_END OnSentenceEnd,
       Subscribe TRANSCRIPTION_PARTIAL OnPartialResult,
       CreateTask PeriodicLoop])"

text \<open>
  \<open>_on_sentence_end\<close>. \<open>text.strip()\<close> exists for a string only; for any other value in
  the event the attribute lookup raises.
\<close>

definition on_sentence_end ::
  "(pystr \<times> pyval) list Event \<Rightarrow> AIEngine \<Rightarrow> AIEngine \<times> engine_io list \<times> exn option" where
  "on_sentence_end event st =
     (case dict_get (data event) (u ''text'') (PyStr []) of
        PyStr text \<Rightarrow>
          (if strip text = [] then (st, [], None)
           else
             (let sentence =
                    [(u ''text'', PyStr text),
                     (u ''time_ms'', dict_get (data event) (u ''time_ms'') (PyInt 0)),
                     (u ''speaker_id'', dict_get (data event) (u ''speaker_id'') (PyStr [])),
                     (u ''stash_text'', dict_get (data event) (u ''stash_text'') (PyStr []))];
                  st' = st\<lparr>transcript_buffer := transcript_buffer st @ [sentence],
                            sentence_buffer := sentence_buffer st @ [text]\<rparr>
              in (st',
                  (if enable_question_detection (config st') then [CreateTask DetectQuestion]
                   else []),
                  None)))
      | other \<Rightarrow> (st, [], Some AttributeError))"

text \<open>
  One turn of \<open>_periodic_loop\<close>, from the wake after \<open>asyncio.sleep(30)\<close> with
  \<open>now = time.time()\<close>: the two gates, each creating its task and then setting its time.
\<close>

definition periodic_wake :: "real \<Rightarrow> AIEngine \<Rightarrow> AIEngine \<times> engine_io list" where
  "periodic_wake now st =
     (let fire1 = (enable_periodic_summary (config st)
                   \<and> now - last_summary_time st \<ge> of_int (summary_interval st)
                   \<and> length (sentence_buffer st) > 5);
          st1 = (if fire1 then st\<lparr>last_summary_time := now\<rparr> else st);
          fire2 = (enable_suggest_questions (config st1)
                   \<and> now - last_suggest_time st1 \<ge> of_int (suggest_interval st1)
                   \<and> length (sentence_buffer st1) > 10);
          st2 = (if fire2 then st1\<lparr>last_suggest_time := now\<rparr> else st1)
      in (st2,
          (if fire1 then [CreateTask GenerateSummary] else [])
          @ (if fire2 then [CreateTask SuggestQuestion] else [])))"

text \<open>
  Truth value of a Python value, \<open>result.get(key, default)\<close>, \<open>x >= r\<close> for a float
  \<open>r\<close>, and \<open>x == y\<close>. Python compares an \<open>int\<close> with a float, and two floats, by
  their exact values. \<open>double_0_7\<close> is the float that the literal \<open>0.7\<close> of the source
  denotes: the double nearest to 7/10, which is a little less than 7/10.
\<close>

definition double_0_7 :: rat where
  "double_0_7 = 3152519739159347 / 4503599627370496"

fun truthy :: "pyval \<Rightarrow> bool" where
  "truthy PyNone = False"
| "truthy (PyBool b) = b"
| "truthy (PyInt i) = (i \<noteq> 0)"
| "truthy (PyFloat f) = (f \<noteq> Fin 0)"
| "truthy (PyStr s) = (s \<noteq> [])"
| "truthy (PyList xs) = (xs \<noteq> [])"
| "truthy (PyDict d) = (d \<noteq> [])"

fun py_get :: "pyval \<Rightarrow> pystr \<Rightarrow> pyval \<Rightarrow> exn + pyval" where
  "py_get (PyDict d) k dflt = Inr (dict_get d k dflt)"
| "py_get other k dflt = Inl AttributeError"

fun ge_float :: "pyval \<Rightarrow> rat \<Rightarrow> exn + bool" where
  "ge_float (PyBool b) r = Inr (r \<le> (if b then 1 else 0))"
| "ge_float (PyInt i) r = Inr (r \<le> of_int i)"
| "ge_float (PyFloat (Fin q)) r = Inr (r \<le> q)"
| "ge_float (PyFloat PosInf) r = Inr True"
| "ge_float (PyFloat NegInf) r = Inr False"
| "ge_float (PyFloat NaN) r = Inr False"
| "ge_float other r = Inl TypeError"

fun py_num :: "pyval \<Rightarrow> pyfloat option" where
  "py_num (PyBool b) = Some (Fin (if b then 1 else 0))"
| "py_num (PyInt i) = Some (Fin (of_int i))"
| "py_num (PyFloat f) = Some f"
| "py_num other = None"

fun py_eq :: "pyval \<Rightarrow> pyval \<Rightarrow> bool" where
  "py_eq PyNone y = (y = PyNone)"
| "py_eq (PyStr s) y = (y = PyStr s)"
| "py_eq (PyList xs) y = (case y of PyList ys \<Rightarrow> list_all2 py_eq xs ys | other \<Rightarrow> False)"
| "py_eq (PyDict d) y =
     (case y of
        PyDict e \<Rightarrow>
          length d = length e
          \<and> list_all (\<lambda>kv. case map_of e (fst kv) of
                                Some w \<Rightarrow> py_eq (snd kv) w
                              | None \<Rightarrow> False) d
      | other \<Rightarrow> False)"
| "py_eq x y =
     (case (py_num x, py_num y) of
        (Some a, Some b) \<Rightarrow> a = b \<and> a \<noteq> NaN
      | other \<Rightarrow> False)"

text \<open>
  The text \<open>_detect_question\<close> analyses: the last five sentences, or all of them when
  there are fewer, joined by line feeds.
\<close>

definition window_text :: "AIEngine \<Rightarrow> pystr" where
  "window_text st =
     (let recent = (if length (sentence_buffer st) \<ge> 5
                    then py_slice_from (- 5) (sentence_buffer st)
                    else sentence_buffer st)
      in join_lines recent)"

text \<open>
  The condition \<open>result and result.get("is_question") and
  result.get("confidence", 0) >= 0.7\<close>, evaluated from the left; it raises when the
  result is a true value without \<open>get\<close>, or the confidence is not a number.
\<close>

definition accepts :: "pyval \<Rightarrow> exn + bool" where
  "accepts result =
     (if \<not> truthy result then Inr False
      else
        (case py_get result (u ''is_question'') PyNone of
           Inl e \<Rightarrow> Inl e
         | Inr q \<Rightarrow>
             (if \<not> truthy q then Inr False
              else
                (case py_get result (u ''confidence'') (PyInt 0) of
                   Inl e \<Rightarrow> Inl e
                 | Inr c \<Rightarrow> ge_float c double_0_7))))"

text \<open>The two events published for a detected question.\<close>

definition question_events ::
  "(pystr \<times> pyval) list \<Rightarrow> pyval \<Rightarrow> (pystr \<times> pyval) list Event list" where
  "question_events d question_text =
     [\<lparr>etype = QUESTION_DETECTED,
       data = [(u ''question'', question_text),
               (u ''question_type'', dict_get d (u ''question_type'') (PyStr [])),
               (u ''answer'', dict_get d (u ''answer'') (PyStr [])),
               (u ''confidence'', dict_get d (u ''confidence'') (PyInt 0)),
               (u ''explanation'', dict_get d (u ''explanation'') (PyStr []))],
       source = u ''ai_engine''\<rparr>,
      \<lparr>etype = ANSWER_GENERATED,
       data = [(u ''question'', question_text),
               (u ''answer'', dict_get d (u ''answer'') (PyStr [])),
               (u ''question_type'', dict_get d (u ''question_type'') (PyStr []))],
       source = u ''ai_engine''\<rparr>]"

text \<open>
  \<open>_detect_question\<close>, run as a whole (the lock admits one detection at a time, and the
  buffer is read once, before the first await). \<open>reply\<close> is what the LLM does if it is
  called: it raises, or returns a text. Every exception after the call of the LLM is
  caught and logged, which leaves the state as it is at that point; that includes what
  the parsing raises, and the exception the logging of a repeated question raises when
  the question text cannot be sliced.
\<close>

definition detect_question ::
  "(pystr \<Rightarrow> json_error + pyval) \<Rightarrow> exn + pystr \<Rightarrow> AIEngine \<Rightarrow> AIEngine \<times> engine_io list" where
  "detect_question loads reply st =
     (let transcript = window_text st in
      if transcript = last_transcript_for_detection st then (st, [])
      else
        (let st1 = st\<lparr>last_transcript_for_detection := transcript\<rparr> in
         case reply of
           Inl e \<Rightarrow> (st1, [Chat transcript])
         | Inr response \<Rightarrow>
             (case parse_json_response loads response of
                Inl e \<Rightarrow> (st1, [Chat transcript])
              | Inr result \<Rightarrow>
                  (case accepts result of
                     Inl e \<Rightarrow> (st1, [Chat transcript])
                   | Inr False \<Rightarrow> (st1, [Chat transcript])
                   | Inr True \<Rightarrow>
                       (case result of
                          PyDict d \<Rightarrow>
                            (let question_text = dict_get d (u ''question_text'') (PyStr [])
                             in if truthy question_text
                                   \<and> py_eq question_text (last_detected_question st1)
                                then (st1, [Chat transcript])
                                else
                                  (st1\<lparr>last_detected_question := question_text\<rparr>,
                                   Chat transcript
                                   # map PublishEvent (question_events d question_text)))
                        | other \<Rightarrow> (st1, [Chat transcript]))))))"

text \<open>
  \<open>_generate_summary\<close>: the last 50 sentences go to the LLM, and a true result is
  published. It changes nothing in the engine.
\<close>

definition generate_summary ::
  "(pystr \<Rightarrow> json_error + pyval) \<Rightarrow> exn + pystr \<Rightarrow> AIEngine \<Rightarrow> AIEngine \<times> engine_io list" where
  "generate_summary loads reply st =
     (let minutes = summary_interval_minutes (config st);
          recent = py_slice_from (- 50) (sentence_buffer st);
          transcript = join_lines recent
      in case reply of
           Inl e \<Rightarrow> (st, [Chat transcript])
         | Inr response \<Rightarrow>
             (case parse_json_response loads response of
                Inl e \<Rightarrow> (st, [Chat transcript])
              | Inr result \<Rightarrow>
                  (if truthy result then
                     (st, [Chat transcript,
                           PublishEvent
                             \<lparr>etype = PERIODIC_SUMMARY,
                              data = [(u ''summary'', result),
                                      (u ''minutes'', PyInt minutes),
                                      (u ''sentence_count'', PyInt (int (length recent)))],
                              source = u ''ai_engine''\<rparr>])
                   else (st, [Chat transcript]))))"

text \<open>
  A run of the engine: what happens to it, each with the time at which it happens.
  The loop wakes only while the engine is running. The effects are listed with their
  times.
\<close>

datatype action = Start | SentenceEnd "(pystr \<times> pyval) list Event" | Wake

fun step :: "real \<Rightarrow> action \<Rightarrow> AIEngine \<Rightarrow> AIEngine \<times> engine_io list" where
  "step now Start st = start st"
| "step now (SentenceEnd event) st =
     (case on_sentence_end event st of (st', io, res) \<Rightarrow> (st', io))"
| "step now Wake st = (if engine_running st then periodic_wake now st else (st, []))"

fun run :: "(real \<times> action) list \<Rightarrow> AIEngine \<Rightarrow> AIEngine \<times> (real \<times> engine_io) list" where
  "run [] st = (st, [])"
| "run ((t, a) # rest) st =
     (case step t a st of (st1, io) \<Rightarrow>
        (case run rest st1 of (st2, ios) \<Rightarrow> (st2, map (Pair t) io @ ios)))"

text \<open>
  What is read off a list of effects: the transcripts sent to the LLM, the events
  published and the tasks created, each in order.
\<close>

definition chat_calls :: "engine_io list \<Rightarrow> pystr list" where
  "chat_calls io = concat (map (\<lambda>x. case x of Chat t \<Rightarrow> [t] | other \<Rightarrow> []) io)"

definition published :: "engine_io list \<Rightarrow> (pystr \<times> pyval) list Event list" where
  "published io = concat (map (\<lambda>x. case x of PublishEvent e \<Rightarrow> [e] | other \<Rightarrow> []) io)"

definition created :: "engine_io list \<Rightarrow> task list" where
  "created io = concat (map (\<lambda>x. case x of CreateTask t \<Rightarrow> [t] | other \<Rightarrow> []) io)"

section \<open>Verification: events.py\<close>

lemma py_slice_from_neg: "0 < k \<Longrightarrow> py_slice_from (- k) xs = drop (length xs - nat k) xs"
proof -
  assume k: "0 < k"
  have "nat (max (- k + int (length xs)) 0) = length xs - nat k" using k by (simp add: max_def) linarith
  then show ?thesis using k by (simp add: py_slice_from_def Let_def)
qed

lemma py_slice_from_0: "py_slice_from 0 xs = xs"
  by (simp add: py_slice_from_def)







lemma publish_history:
  "event_history (fst (publish env e b r)) =
     (if int (length (event_history b)) + 1 > max_history b
      then py_slice_from (- max_history b) (event_history b @ [e]) else event_history b @ [e])"
  by (simp add: publish_def Let_def split: prod.splits)

lemma publish_max_history: "max_history (fst (publish env e b r)) = max_history b"
  by (simp add: publish_def Let_def split: prod.splits)

lemma publish_handlers: "handlers_for (fst (publish env e b r)) = handlers_for b"
  by (simp add: publish_def Let_def handlers_for_def subscribers_def fun_eq_iff split: prod.splits)

lemma publish_history_1000:
  assumes "max_history b = 1000"
  shows "event_history (fst (publish env e b r)) =
           drop (Suc (length (event_history b)) - 1000) (event_history b @ [e])"
  using assms by (simp add: publish_history py_slice_from_neg)

lemma publish_seq_history:
  "max_history b = 1000 \<Longrightarrow> length (event_history b) \<le> 1000 \<Longrightarrow>
   event_history (fst (publish_seq env es b r)) =
     drop (length (event_history b @ es) - 1000) (event_history b @ es)
   \<and> max_history (fst (publish_seq env es b r)) = 1000"
proof (induction es arbitrary: b r)
  case Nil
  then show ?case by simp
next
  case (Cons e es)
  obtain b' r' res where p: "publish env e b r = (b', r', res)" by (cases "publish env e b r")
  define H where "H = event_history b"
  define k where "k = Suc (length H) - 1000"
  have h: "event_history b' = drop k (H @ [e])"
    using publish_history_1000 [OF Cons.prems(1), of env e r] p by (simp add: H_def k_def)
  have m: "max_history b' = 1000" using publish_max_history [of env e b r] p Cons.prems by simp
  have n: "length H \<le> 1000" using Cons.prems by (simp add: H_def)
  have l: "length (event_history b') \<le> 1000" using h n by (simp add: k_def)
  have a: "event_history b' @ es = drop k (H @ e # es)"
    using h n by (simp add: k_def)
  define X where "X = H @ e # es"
  have a': "event_history b' @ es = drop k X" using a by (simp add: X_def)
  have eq: "length (drop k X) - 1000 + k = length X - 1000"
    using n by (simp add: k_def X_def)
  have "drop (length (drop k X) - 1000) (drop k X) = drop (length (drop k X) - 1000 + k) X"
    by (rule drop_drop)
  then have "drop (length (event_history b' @ es) - 1000) (event_history b' @ es) =
          drop (length X - 1000) X"
    by (simp only: a' eq)
  then have "drop (length (event_history b' @ es) - 1000) (event_history b' @ es) =
          drop (length (H @ e # es) - 1000) (H @ e # es)"
    by (simp only: X_def)
  then show ?case using Cons.IH [OF m l, of r'] p by (simp add: H_def)
qed







text \<open>
  C7. With the capacity of 1000, the history holds at most 1000 events after every
  publish, a publish on a full history drops the oldest event, and after any sequence of
  publishes on an empty history the history, and \<open>get_history(limit=1000)\<close>, is the
  last 1000 events of the sequence in arrival order: after 1000 + k publishes, all but
  the first k.
\<close>

theorem history_bounded:
  "(max_history b = 1000 \<longrightarrow> length (event_history (fst (publish env e b r))) \<le> 1000)
   \<and> (max_history b = 1000 \<and> length (event_history b) = 1000 \<longrightarrow>
        event_history (fst (publish env e b r)) = tl (event_history b) @ [e])
   \<and> (max_history b = 1000 \<and> event_history b = [] \<longrightarrow>
        length (event_history (fst (publish_seq env es b r))) \<le> 1000
        \<and> event_history (fst (publish_seq env es b r)) = drop (length es - 1000) es
        \<and> get_history (fst (publish_seq env es b r)) None 1000 = drop (length es - 1000) es
        \<and> (\<forall>k. length es = 1000 + k \<longrightarrow>
              get_history (fst (publish_seq env es b r)) None 1000 = drop k es))"
proof (intro conjI impI)
  assume m: "max_history b = 1000"
  show "length (event_history (fst (publish env e b r))) \<le> 1000"
    using publish_history_1000 [OF m, of env e r] by simp
next
  assume "max_history b = 1000 \<and> length (event_history b) = 1000"
  then show "event_history (fst (publish env e b r)) = tl (event_history b) @ [e]"
    using publish_history_1000 [of b env e r] by (cases "event_history b") simp_all
next
  assume a: "max_history b = 1000 \<and> event_history b = []"
  define b' where "b' = fst (publish_seq env es b r)"
  have h: "event_history b' = drop (length es - 1000) es" and m: "max_history b' = 1000"
    using publish_seq_history [of b env es r] a by (simp_all add: b'_def)
  show "length (event_history (fst (publish_seq env es b r))) \<le> 1000"
    using h by (simp add: b'_def [symmetric])
  show "event_history (fst (publish_seq env es b r)) = drop (length es - 1000) es"
    using h by (simp add: b'_def [symmetric])
  have g: "get_history b' None 1000 = drop (length es - 1000) es"
    using h by (simp add: get_history_def py_slice_from_neg)
  then show "get_history (fst (publish_seq env es b r)) None 1000 = drop (length es - 1000) es"
    by (simp add: b'_def [symmetric])
  show "\<forall>k. length es = 1000 + k \<longrightarrow>
              get_history (fst (publish_seq env es b r)) None 1000 = drop k es"
    using g by (simp add: b'_def [symmetric])
qed

theorem history_bounded_witness:
  "max_history (EventBus_init :: (nat, nat) EventBus) = 1000
   \<and> event_history (EventBus_init :: (nat, nat) EventBus) = []
   \<and> get_history (fst (publish_seq (\<lambda>h e w. (w, None))
         (map (\<lambda>i. \<lparr>etype = SYSTEM_INFO, data = i, source = []\<rparr>) [0..<1003])
         (EventBus_init :: (nat, nat) EventBus) ((), []))) None 1000 =
       map (\<lambda>i. \<lparr>etype = SYSTEM_INFO, data = i, source = []\<rparr>) [3..<1003]"
  using history_bounded [of "EventBus_init :: (nat, nat) EventBus" "\<lambda>h e w. (w, None)"
      "\<lparr>etype = SYSTEM_INFO, data = 0, source = []\<rparr>" "((), [])"
      "map (\<lambda>i. \<lparr>etype = SYSTEM_INFO, data = i, source = []\<rparr>) [0..<1003]"]
  by (simp add: EventBus_init_def drop_map)

text \<open>
  C10. \<open>get_history\<close> with \<open>limit = 0\<close> returns the whole stored history (of the type
  asked for, when one is given), since \<open>history[-0:]\<close> is \<open>history[0:]\<close>; with a
  positive limit it returns the last \<open>min(limit, length)\<close> events.
\<close>

theorem get_history_limit:
  "get_history b None 0 = event_history b
   \<and> get_history b (Some t) 0 = filter (\<lambda>e. etype e = t) (event_history b)
   \<and> (0 < limit \<longrightarrow>
        get_history b None limit =
          drop (length (event_history b) - nat limit) (event_history b)
        \<and> length (get_history b None limit) = min (nat limit) (length (event_history b))
        \<and> get_history b (Some t) limit =
          drop (length (filter (\<lambda>e. etype e = t) (event_history b)) - nat limit)
            (filter (\<lambda>e. etype e = t) (event_history b))
        \<and> length (get_history b (Some t) limit) =
            min (nat limit) (length (filter (\<lambda>e. etype e = t) (event_history b))))"
  by (auto simp: get_history_def py_slice_from_neg py_slice_from_0 Let_def)

theorem get_history_limit_witness:
  "get_history ((EventBus_init :: (nat, nat) EventBus)\<lparr>event_history :=
       [\<lparr>etype = CLASS_STARTED, data = 1, source = []\<rparr>,
        \<lparr>etype = SYSTEM_INFO, data = 2, source = []\<rparr>,
        \<lparr>etype = CLASS_ENDED, data = 3, source = []\<rparr>]\<rparr>) None 0 =
       [\<lparr>etype = CLASS_STARTED, data = 1, source = []\<rparr>,
        \<lparr>etype = SYSTEM_INFO, data = 2, source = []\<rparr>,
        \<lparr>etype = CLASS_ENDED, data = 3, source = []\<rparr>]
   \<and> (0::int) < 2
   \<and> get_history ((EventBus_init :: (nat, nat) EventBus)\<lparr>event_history :=
       [\<lparr>etype = CLASS_STARTED, data = 1, source = []\<rparr>,
        \<lparr>etype = SYSTEM_INFO, data = 2, source = []\<rparr>,
        \<lparr>etype = CLASS_ENDED, data = 3, source = []\<rparr>]\<rparr>) None 2 =
       [\<lparr>etype = SYSTEM_INFO, data = 2, source = []\<rparr>,
        \<lparr>etype = CLASS_ENDED, data = 3, source = []\<rparr>]"
  using get_history_limit [of "(EventBus_init :: (nat, nat) EventBus)\<lparr>event_history :=
       [\<lparr>etype = CLASS_STARTED, data = 1, source = []\<rparr>,
        \<lparr>etype = SYSTEM_INFO, data = 2, source = []\<rparr>,
        \<lparr>etype = CLASS_ENDED, data = 3, source = []\<rparr>]\<rparr>" SYSTEM_INFO 2]
  by simp

section \<open>Verification: audio.py\<close>

lemma drop_append_le: "k \<le> length xs \<Longrightarrow> drop k xs @ ys = drop k (xs @ ys)"
  by simp

lemma keep_last_step:
  assumes "length H \<le> n"
  shows "drop (length (drop (Suc (length H) - n) (H @ [e]) @ es) - n)
              (drop (Suc (length H) - n) (H @ [e]) @ es) =
         drop (length (H @ e # es) - n) (H @ e # es)"
proof -
  define k where "k = Suc (length H) - n"
  define X where "X = H @ e # es"
  have kle: "k \<le> length (H @ [e])" by (simp add: k_def)
  have x: "(H @ [e]) @ es = X" by (simp add: X_def)
  have a: "drop k (H @ [e]) @ es = drop k X"
    using drop_append_le [OF kle, of es] by (simp only: x)
  have eq: "length (drop k X) - n + k = length X - n"
    using assms by (simp add: k_def X_def)
  have "drop (length (drop k X) - n) (drop k X) = drop (length (drop k X) - n + k) X"
    by (rule drop_drop)
  then have "drop (length (drop k (H @ [e]) @ es) - n) (drop k (H @ [e]) @ es) = drop (length X - n) X"
    by (simp only: a eq)
  then show ?thesis by (simp only: X_def k_def)
qed

lemma enqueue_items:
  assumes "maxsize (audio_queue a) = 500" "length (items (audio_queue a)) \<le> 500"
  shows "items (audio_queue (enqueue d a)) =
           drop (Suc (length (items (audio_queue a))) - 500) (items (audio_queue a) @ [d])"
    and "maxsize (audio_queue (enqueue d a)) = 500"
  using assms
  by (cases "items (audio_queue a)";
      simp add: enqueue_def put_nowait_def get_nowait_def full_def qsize_def Let_def)+

lemma fold_enqueue_items:
  "maxsize (audio_queue a) = 500 \<Longrightarrow> length (items (audio_queue a)) \<le> 500 \<Longrightarrow>
   items (audio_queue (fold enqueue ds a)) =
     drop (length (items (audio_queue a) @ ds) - 500) (items (audio_queue a) @ ds)
   \<and> maxsize (audio_queue (fold enqueue ds a)) = 500"
proof (induction ds arbitrary: a)
  case Nil
  then show ?case by simp
next
  case (Cons d ds)
  define H where "H = items (audio_queue a)"
  have h: "items (audio_queue (enqueue d a)) = drop (Suc (length H) - 500) (H @ [d])"
    and m: "maxsize (audio_queue (enqueue d a)) = 500"
    using enqueue_items [OF Cons.prems] by (simp_all add: H_def)
  have n: "length H \<le> 500" using Cons.prems by (simp add: H_def)
  have l: "length (items (audio_queue (enqueue d a))) \<le> 500" using h n by simp
  show ?case
    using Cons.IH [OF m l] keep_last_step [OF n, of d ds]
    by (simp only: fold_simps h H_def [symmetric])
qed

text \<open>
  C8. The audio queue (capacity 500) never holds more than 500 frames. A frame that
  arrives while there is room is appended; a frame that arrives while the queue is full
  takes the place of exactly one frame, the oldest, and is itself always admitted (it
  is the last item afterwards). After any sequence of frames enqueued on a new capture
  the queue holds the last 500 of them in order.
\<close>

theorem enqueue_overflow:
  "(maxsize (audio_queue a) = 500 \<and> length (items (audio_queue a)) \<le> 500 \<longrightarrow>
      length (items (audio_queue (enqueue d a))) \<le> 500
      \<and> last (items (audio_queue (enqueue d a))) = d
      \<and> (length (items (audio_queue a)) < 500 \<longrightarrow>
            items (audio_queue (enqueue d a)) = items (audio_queue a) @ [d])
      \<and> (length (items (audio_queue a)) = 500 \<longrightarrow>
            items (audio_queue (enqueue d a)) = tl (items (audio_queue a)) @ [d]))
   \<and> length (items (audio_queue (fold enqueue ds (AudioCapture_init dev rate chans chunk bits))))
        \<le> 500
   \<and> items (audio_queue (fold enqueue ds (AudioCapture_init dev rate chans chunk bits))) =
        drop (length ds - 500) ds"
proof (intro conjI impI)
  assume a: "maxsize (audio_queue a) = 500 \<and> length (items (audio_queue a)) \<le> 500"
  then have h: "items (audio_queue (enqueue d a)) =
           drop (Suc (length (items (audio_queue a))) - 500) (items (audio_queue a) @ [d])"
    using enqueue_items(1) [of a d] by simp
  show "length (items (audio_queue (enqueue d a))) \<le> 500" using h a by simp
  show "last (items (audio_queue (enqueue d a))) = d" using h a by simp
  show "items (audio_queue (enqueue d a)) = items (audio_queue a) @ [d]"
    if "length (items (audio_queue a)) < 500" using h that by simp
  show "items (audio_queue (enqueue d a)) = tl (items (audio_queue a)) @ [d]"
    if "length (items (audio_queue a)) = 500" using h that by (cases "items (audio_queue a)") simp_all
next
  define a0 where "a0 = AudioCapture_init dev rate chans chunk bits"
  have m: "maxsize (audio_queue a0) = 500" and l: "length (items (audio_queue a0)) \<le> 500"
    and e: "items (audio_queue a0) = []"
    by (simp_all add: a0_def AudioCapture_init_def Queue_init_def)
  have f: "items (audio_queue (fold enqueue ds a0)) = drop (length ds - 500) ds"
    using fold_enqueue_items [OF m l, of ds] by (simp add: e)
  show "items (audio_queue (fold enqueue ds (AudioCapture_init dev rate chans chunk bits))) =
        drop (length ds - 500) ds" using f by (simp add: a0_def)
  show "length (items (audio_queue (fold enqueue ds (AudioCapture_init dev rate chans chunk bits))))
        \<le> 500" using f by (simp add: a0_def [symmetric])
qed

text \<open>A full queue of 500 frames: the oldest goes, the new frame is last.\<close>

theorem enqueue_overflow_witness:
  "maxsize (audio_queue ((AudioCapture_init None 16000 1 3200 16)
       \<lparr>audio_queue := \<lparr>maxsize = 500, items = replicate 500 [0]\<rparr>\<rparr>)) = 500
   \<and> length (items (audio_queue ((AudioCapture_init None 16000 1 3200 16)
       \<lparr>audio_queue := \<lparr>maxsize = 500, items = replicate 500 [0]\<rparr>\<rparr>))) = 500
   \<and> items (audio_queue (enqueue [7] ((AudioCapture_init None 16000 1 3200 16)
       \<lparr>audio_queue := \<lparr>maxsize = 500, items = replicate 500 [0]\<rparr>\<rparr>))) =
       replicate 499 [0] @ [[7]]"
  using enqueue_overflow [of "(AudioCapture_init None 16000 1 3200 16)
       \<lparr>audio_queue := \<lparr>maxsize = 500, items = replicate 500 [0]\<rparr>\<rparr>" "[7]" "[]" None 16000 1 3200 16]
  by (simp add: AudioCapture_init_def)

section \<open>Verification: speech.py\<close>

text \<open>
  C9. While no stream is open (before \<open>start_streaming\<close>, the spec's connect)
  \<open>send_audio\<close> sends nothing, changes nothing and returns normally, and so does
  \<open>stop_streaming\<close>; \<open>stop_streaming\<close> after a \<open>stop_streaming\<close> is such a no-op, whatever
  state the first one started from; and \<open>start_streaming\<close> without a stored stream URL
  (before the task creation, the spec's createSession) raises its \<open>RuntimeError\<close>, the
  error the spec calls LifecycleError, before any connection is attempted and without
  changing the client.
\<close>

theorem lifecycle_guards:
  "(ws c = None \<longrightarrow> send_audio send_fails audio_data c = (c, [], None))
   \<and> (ws c = None \<longrightarrow> stop_streaming send_fails close_fails c = (c, [], None))
   \<and> (stop_streaming send_fails' close_fails'
         (fst (stop_streaming send_fails close_fails c)) =
         (fst (stop_streaming send_fails close_fails c), [], None))
   \<and> (meeting_join_url c = None \<longrightarrow>
         start_streaming connect_fails send_fails c =
           (c, [], Some (RuntimeError msg_create_task_first)))"
  by (simp add: send_audio_def stop_streaming_def start_streaming_def no_url_def Let_def)

text \<open>
  A new client, and a client taken through a whole session: the first stop sends the
  stop command, waits, cancels the receive task and closes; the second does nothing.
\<close>

theorem lifecycle_guards_witness:
  "ws TingwuClient_init = None
   \<and> send_audio None [1, 2] TingwuClient_init = (TingwuClient_init, [], None)
   \<and> meeting_join_url TingwuClient_init = None
   \<and> start_streaming None None TingwuClient_init =
        (TingwuClient_init, [], Some (RuntimeError msg_create_task_first))
   \<and> fst (snd (stop_streaming None None (fst (start_streaming None None
         (TingwuClient_init\<lparr>task_id := Some (u ''t1''), meeting_join_url := Some (u ''wss://x'')\<rparr>))))) =
       [SendText StopTranscription, Sleep 2, CancelReceiveTask, CloseWs]
   \<and> stop_streaming None None (fst (stop_streaming None None (fst (start_streaming None None
         (TingwuClient_init\<lparr>task_id := Some (u ''t1''), meeting_join_url := Some (u ''wss://x'')\<rparr>))))) =
       (fst (stop_streaming None None (fst (start_streaming None None
         (TingwuClient_init\<lparr>task_id := Some (u ''t1''), meeting_join_url := Some (u ''wss://x'')\<rparr>)))), [], None)"
  using lifecycle_guards [where c = TingwuClient_init and send_fails = None and audio_data = "[1, 2]"
      and connect_fails = None]
    lifecycle_guards [where c = "fst (start_streaming None None
         (TingwuClient_init\<lparr>task_id := Some (u ''t1''), meeting_join_url := Some (u ''wss://x'')\<rparr>))"
      and send_fails = None and close_fails = None and send_fails' = None
      and close_fails' = None]
  by (simp add: TingwuClient_init_def start_streaming_def stop_streaming_def no_url_def u_def Let_def)

end
